theory Spec2Isabelle
  imports Complex_Main
begin

section \<open>Telemetry ingestion and energy accounting of the PDU controller\<close>

text \<open>
  The model follows \<^verbatim>\<open>src/PDUControllerJF.py\<close>: the module globals \<^verbatim>\<open>in_flight\<close>,
  \<^verbatim>\<open>output\<close>, \<^verbatim>\<open>battery\<close> and the logger become one record that every operation takes
  and returns. Python floats are read as the real numbers they denote (rounding,
  infinities and NaN are not modelled), except where a float is truncated to a whole
  number: there the double computation is a parameter. A text is the list of its UTF-8
  bytes; the comma is one byte, so splitting at commas is the same on bytes and on
  characters.
\<close>

subsection \<open>Python values\<close>

datatype py_error = IndexError | ValueError | ZeroDivisionError

text \<open>\<^verbatim>\<open>str.split(",")\<close>: one more field than there are commas, never an empty list.\<close>

fun py_split :: "string \<Rightarrow> string list" where
  "py_split [] = [[]]"
| "py_split (c # cs) =
     (if c = CHR '','' then [] # py_split cs
      else (case py_split cs of [] \<Rightarrow> [[c]] | w # ws \<Rightarrow> (c # w) # ws))"

text \<open>
  Texts made of the ASCII digits 0..9 only, and their decimal value. On such a text
  \<^verbatim>\<open>str.isdigit()\<close> is true and \<^verbatim>\<open>int\<close> gives this value; on every other ASCII text
  \<^verbatim>\<open>str.isdigit()\<close> is false.
\<close>

definition is_digit_char :: "char \<Rightarrow> bool" where
  "is_digit_char c = (48 \<le> (of_char c :: nat) \<and> (of_char c :: nat) \<le> 57)"

definition ascii_isdigit :: "string \<Rightarrow> bool" where
  "ascii_isdigit s = (s \<noteq> [] \<and> list_all is_digit_char s)"

definition ascii_int :: "string \<Rightarrow> int" where
  "ascii_int s = foldl (\<lambda>n c. 10 * n + (int (of_char c) - 48)) 0 s"

text \<open>\<^verbatim>\<open>int(x)\<close> for a float: truncation towards zero.\<close>

definition py_int_of_float :: "real \<Rightarrow> int" where
  "py_int_of_float x = (if 0 \<le> x then \<lfloor>x\<rfloor> else \<lceil>x\<rceil>)"

text \<open>
  What the program reads from outside itself: the clock, and the library functions whose
  tables and grammars are not part of this repository. \<^verbatim>\<open>None\<close> stands for the
  exception (\<^verbatim>\<open>ValueError\<close>) that a parser raises on text it does not accept.
  \<^verbatim>\<open>str.isdigit()\<close> also accepts digits outside ASCII, some of which \<^verbatim>\<open>int\<close> and
  \<^verbatim>\<open>float\<close> refuse (the superscript two) and some of which they read (the Arabic-Indic
  digits), so the three are independent parameters. \<open>float_percent a b\<close> is the double
  that \<^verbatim>\<open>a / b * 100.0\<close> evaluates to for \<open>b \<noteq> 0\<close>: it is truncated to a whole number
  afterwards, so its rounding shows (2175 / 3750 * 100.0 is 57.99999999999999).
\<close>

record env =
  fromisoformat_timestamp :: "string \<Rightarrow> real option"
  utcnow_timestamp :: real
  py_float :: "string \<Rightarrow> real option"
  str_isdigit :: "string \<Rightarrow> bool"
  py_int :: "string \<Rightarrow> int option"
  float_percent :: "real \<Rightarrow> real \<Rightarrow> real"

subsection \<open>The module globals\<close>

text \<open>
  \<^verbatim>\<open>output\<close> holds four lists indexed by service (0..5); the seventh item of
  \<^verbatim>\<open>last_update_time\<close> and \<^verbatim>\<open>accumulated_Wh\<close> is the heaters' one. A last update time
  of 0.0 means that no sample was taken yet. The values of \<^verbatim>\<open>battery\<close> are the numbers
  that \<^verbatim>\<open>float(battery[...])\<close> reads. \<^verbatim>\<open>warnings\<close> is what \<^verbatim>\<open>log.warning\<close> was called with.
\<close>

definition HEATERS :: nat where
  "HEATERS = 6"

record state =
  in_flight :: bool
  output_current :: "real list"
  output_last_update_time :: "real list"
  output_accumulated_Wh :: "real list"
  output_is_on :: "bool list"
  battery_nominal_voltage :: real
  battery_heaters_consumption :: real
  battery_max_wh :: real
  battery_progress_wh :: real
  warnings :: "(string \<times> bool) list"

text \<open>The globals as \<^verbatim>\<open>main\<close> creates them, for a battery configuration.\<close>

definition initial_state :: "real \<Rightarrow> real \<Rightarrow> real \<Rightarrow> state" where
  "initial_state nominal heaters capacity =
     \<lparr>in_flight = False,
      output_current = [0, 0, 0, 0, 0, 0],
      output_last_update_time = [0, 0, 0, 0, 0, 0, 0],
      output_accumulated_Wh = [0, 0, 0, 0, 0, 0, 0],
      output_is_on = [False, False, False, False, False, False],
      battery_nominal_voltage = nominal,
      battery_heaters_consumption = heaters,
      battery_max_wh = capacity,
      battery_progress_wh = capacity,
      warnings = []\<rparr>"

text \<open>The lists are never resized: they keep the lengths \<^verbatim>\<open>main\<close> gave them.\<close>

definition wf_output :: "state \<Rightarrow> bool" where
  "wf_output st =
     (length (output_current st) = 6 \<and> length (output_last_update_time st) = 7 \<and>
      length (output_accumulated_Wh st) = 7 \<and> length (output_is_on st) = 6)"

definition log_warning :: "string \<Rightarrow> bool \<Rightarrow> state \<Rightarrow> state" where
  "log_warning msg is_save_to_log_file st =
     st\<lparr>warnings := warnings st @ [(msg, is_save_to_log_file)]\<rparr>"

subsection \<open>parse\_telemetry\<close>

text \<open>
  A result \<open>Inr st\<close> is a normal return with the globals left as \<open>st\<close>;
  \<open>Inl (e, st)\<close> is the exception \<open>e\<close> leaving the function, with the globals as
  they were when it was raised.
\<close>

type_synonym result = "(py_error \<times> state) + state"

text \<open>The branch for a packet that does not come from the PDU: only EVENT is looked at.\<close>

definition parse_telemetry_event :: "string list \<Rightarrow> real \<Rightarrow> state \<Rightarrow> result" where
  "parse_telemetry_event packet time_of_reception st =
     (if length packet \<le> 3 then Inl (IndexError, st)
      else if packet ! 3 = ''START_FLIGHT'' then
        Inr (st\<lparr>in_flight := True,
                output_last_update_time :=
                  (output_last_update_time st)[HEATERS := time_of_reception]\<rparr>)
      else if packet ! 3 = ''END_FLIGHT'' \<and> output_last_update_time st ! HEATERS > 0 then
        (let delta = time_of_reception - output_last_update_time st ! HEATERS;
             wh = (if delta > 0
                   then (output_accumulated_Wh st)
                          [HEATERS := output_accumulated_Wh st ! HEATERS +
                             battery_heaters_consumption st * (delta / 3600) *
                             battery_nominal_voltage st]
                   else output_accumulated_Wh st)
         in Inr (st\<lparr>in_flight := False,
                     output_accumulated_Wh := wh,
                     output_last_update_time := (output_last_update_time st)[HEATERS := 0]\<rparr>))
      else Inr st)"

text \<open>The SRVCSET branch: the confirmed state of a service.\<close>

definition parse_telemetry_srvcset ::
  "env \<Rightarrow> string list \<Rightarrow> bool \<Rightarrow> state \<Rightarrow> result" where
  "parse_telemetry_srvcset e packet is_save_to_log_file st =
     (if length packet < 5 then
        Inr (log_warning ''SRVCSET packet error - Too short'' is_save_to_log_file st)
      else
        (let service_id = packet ! 3; service_state = packet ! 4 in
         if str_isdigit e service_id then
           (case py_int e service_id of
              None \<Rightarrow> Inl (ValueError, st)
            | Some index \<Rightarrow>
                if index \<ge> 1 \<and> index \<le> 6 then
                  Inr (st\<lparr>output_is_on :=
                             (output_is_on st)[nat (index - 1) := (service_state = ''1'')]\<rparr>)
                else
                  Inr (log_warning (''Service index ('' @ service_id @
                         '') out of range for SRVCSET received'') is_save_to_log_file st))
         else
           Inr (log_warning (''Bad service index ('' @ service_id @
                  '') for SRVCSET received'') is_save_to_log_file st)))"

text \<open>The STATUS branch: a current sample, and its energy since the last sample.\<close>

definition parse_telemetry_status ::
  "env \<Rightarrow> string list \<Rightarrow> real \<Rightarrow> bool \<Rightarrow> state \<Rightarrow> result" where
  "parse_telemetry_status e packet time_of_reception is_save_to_log_file st =
     (if length packet < 5 then
        Inr (log_warning ''STATUS packet error - Too short'' is_save_to_log_file st)
      else
        (let service_id = packet ! 3; val = packet ! 4 in
         if str_isdigit e service_id then
           (case py_int e service_id of
              None \<Rightarrow> Inl (ValueError, st)
            | Some index \<Rightarrow>
                if index \<ge> 1 \<and> index \<le> 6 then
                  (let i = nat (index - 1) in
                   case py_float e val of
                     None \<Rightarrow> Inl (ValueError, st)
                   | Some amps \<Rightarrow>
                       (let st1 = st\<lparr>output_current := (output_current st)[i := amps]\<rparr>;
                            st2 = (if output_last_update_time st1 ! i > 0 then
                                     (let delta =
                                            time_of_reception - output_last_update_time st1 ! i
                                      in st1\<lparr>output_accumulated_Wh :=
                                           (output_accumulated_Wh st1)
                                             [i := output_accumulated_Wh st1 ! i +
                                                output_current st1 ! i * (delta / 3600) *
                                                battery_nominal_voltage st1]\<rparr>)
                                   else st1)
                        in Inr (st2\<lparr>output_last_update_time :=
                                    (output_last_update_time st2)[i := time_of_reception]\<rparr>)))
                else
                  Inr (log_warning (''Service index ('' @ service_id @
                         '') out of range for STATUS received'') is_save_to_log_file st))
         else
           Inr (log_warning (''Bad service index ('' @ service_id @
                  '') for STATUS received'') is_save_to_log_file st)))"

text \<open>
  The timestamp of the packet, or the clock when it cannot be decoded (with a warning).
\<close>

definition decode_time :: "env \<Rightarrow> string \<Rightarrow> bool \<Rightarrow> state \<Rightarrow> real \<times> state" where
  "decode_time e field is_save_to_log_file st =
     (case fromisoformat_timestamp e field of
        Some t \<Rightarrow> (t, st)
      | None \<Rightarrow>
          (utcnow_timestamp e,
           log_warning (''ERROR: timestamp could not be decoded: '' @ field)
             is_save_to_log_file st))"

definition parse_telemetry :: "env \<Rightarrow> string \<Rightarrow> bool \<Rightarrow> state \<Rightarrow> result" where
  "parse_telemetry e raw_packet is_save_to_log_file st =
     (let packet = py_split raw_packet in
      if length packet < 3 then
        Inr (log_warning (''TM packet too short,'' @ raw_packet) is_save_to_log_file st)
      else
        (let source = packet ! 0;
             (time_of_reception, st1) = decode_time e (packet ! 1) is_save_to_log_file st;
             header = packet ! 2
         in if source \<noteq> ''PDU'' then
              (if header = ''EVENT'' then parse_telemetry_event packet time_of_reception st1
               else Inr st1)
            else if header = ''SRVCSET'' then
              parse_telemetry_srvcset e packet is_save_to_log_file st1
            else if header = ''STATUS'' then
              parse_telemetry_status e packet time_of_reception is_save_to_log_file st1
            else Inr st1))"

subsection \<open>The FLIGHT TOGGLE button of the main loop\<close>

text \<open>
  The handler of the event \<^verbatim>\<open>-FLIGHT_TOGGLE-\<close> in \<^verbatim>\<open>main\<close>. It also writes an
  \<^verbatim>\<open>END_FLIGHT\<close> or \<^verbatim>\<open>START_FLIGHT\<close> event line to the log and relabels the button,
  which changes none of the globals below.
\<close>

definition flight_toggle :: "env \<Rightarrow> state \<Rightarrow> state" where
  "flight_toggle e st =
     (if in_flight st then
        st\<lparr>in_flight := False,
           output_last_update_time :=
             (output_last_update_time st)[HEATERS := utcnow_timestamp e]\<rparr>
      else st\<lparr>in_flight := True\<rparr>)"

subsection \<open>refresh\_telemetry\_stats\_on\_gui\<close>

text \<open>
  \<^verbatim>\<open>values\<close> is the dictionary the window returns: the state of a checkbox or the
  text of an input field, by key.
\<close>

record gui_values =
  checkbox :: "string \<Rightarrow> bool"
  input_text :: "string \<Rightarrow> string"

text \<open>
  One group: the dictionary \<^verbatim>\<open>group1\<close> or \<^verbatim>\<open>group2\<close>, and what its four window
  elements show. A text written with \<^verbatim>\<open>:.3f\<close> is kept as the number that is written.
\<close>

record group_view =
  group_A :: real
  group_Wh :: real
  a_text :: real
  wh_text :: real
  limit_wh_background :: string
  wh_background :: string

record gui =
  group1 :: group_view
  group2 :: group_view
  groups_a_text :: real
  battery_wh_text :: real
  battery_percent_text :: int
  battery_progress_bar :: int

text \<open>The six tests of one group, service 1 first, each adding one item of \<open>xs\<close>.\<close>

definition group_sum :: "(string \<Rightarrow> bool) \<Rightarrow> string list \<Rightarrow> real list \<Rightarrow> real" where
  "group_sum checked keys xs =
     foldl (\<lambda>acc (k, i). if checked k then acc + xs ! i else acc) 0 (zip keys [0..<6])"

text \<open>
  The background of the limit and of the running sum: red within 10 percent of the
  limit, white above; not touched when the limit is not positive.
\<close>

definition limit_background :: "real \<Rightarrow> real \<Rightarrow> string \<Rightarrow> string" where
  "limit_background limit wh old =
     (if limit > 0 then
        (let threshold = limit * 0.1 in
         if limit - wh \<le> threshold then ''red'' else ''white'')
      else old)"

definition refresh_group ::
  "env \<Rightarrow> gui_values \<Rightarrow> string list \<Rightarrow> string \<Rightarrow> state \<Rightarrow> group_view
     \<Rightarrow> (py_error \<times> group_view) + group_view" where
  "refresh_group e vals keys limit_key st g =
     (let a = group_sum (checkbox vals) keys (output_current st);
          wh = group_sum (checkbox vals) keys (output_accumulated_Wh st);
          g1 = g\<lparr>group_A := a, group_Wh := wh, a_text := a, wh_text := wh\<rparr>
      in case py_float e (input_text vals limit_key) of
           None \<Rightarrow> Inl (ValueError, g1)
         | Some limit \<Rightarrow>
             Inr (g1\<lparr>limit_wh_background := limit_background limit wh (limit_wh_background g1),
                      wh_background := limit_background limit wh (wh_background g1)\<rparr>))"

definition GR1_keys :: "string list" where
  "GR1_keys = [''-S1GR1-'', ''-S2GR1-'', ''-S3GR1-'', ''-S4GR1-'', ''-S5GR1-'', ''-S6GR1-'']"

definition GR2_keys :: "string list" where
  "GR2_keys = [''-S1GR2-'', ''-S2GR2-'', ''-S3GR2-'', ''-S4GR2-'', ''-S5GR2-'', ''-S6GR2-'']"

text \<open>
  The offset: \<^verbatim>\<open>float\<close> of the text of its field when that is not empty and passes
  \<^verbatim>\<open>isdigit()\<close>, 0.0 otherwise. \<^verbatim>\<open>float\<close> raises on a text that it does not accept.
\<close>

definition offset_wh :: "env \<Rightarrow> gui_values \<Rightarrow> py_error + real" where
  "offset_wh e vals =
     (let field = input_text vals ''-OFFSET_WH-'' in
      if field \<noteq> [] then
        (if str_isdigit e field then
           (case py_float e field of None \<Rightarrow> Inl ValueError | Some x \<Rightarrow> Inr x)
         else Inr 0)
      else Inr 0)"

definition total_used :: "real \<Rightarrow> state \<Rightarrow> real" where
  "total_used offset st =
     output_accumulated_Wh st ! 0 + output_accumulated_Wh st ! 1 +
     output_accumulated_Wh st ! 2 + output_accumulated_Wh st ! 3 +
     output_accumulated_Wh st ! 4 + output_accumulated_Wh st ! 5 +
     output_accumulated_Wh st ! HEATERS + offset"

definition update_bar :: "int \<Rightarrow> int" where
  "update_bar battery_percent =
     (if battery_percent > 100 then 100
      else if battery_percent < 0 then 0
      else battery_percent)"

text \<open>
  The battery section: what is left, as Wh, as a whole percentage, and on the bar.
  \<^verbatim>\<open>battery['progress_wh']\<close> is set to 0.0 first, and stays so when the offset raises.
\<close>

definition refresh_battery ::
  "env \<Rightarrow> gui_values \<Rightarrow> state \<Rightarrow> gui \<Rightarrow> (py_error \<times> state \<times> gui) + (state \<times> gui)" where
  "refresh_battery e vals st w =
     (let st0 = st\<lparr>battery_progress_wh := 0\<rparr> in
      case offset_wh e vals of
        Inl err \<Rightarrow> Inl (err, st0, w)
      | Inr offset \<Rightarrow>
          (let st1 = st0\<lparr>battery_progress_wh := battery_max_wh st0 - total_used offset st0\<rparr>;
               w1 = w\<lparr>battery_wh_text := battery_progress_wh st1\<rparr>
           in if battery_max_wh st1 = 0 then Inl (ZeroDivisionError, st1, w1)
              else
                (let battery_percent =
                       py_int_of_float
                         (float_percent e (battery_progress_wh st1) (battery_max_wh st1))
                 in Inr (st1, w1\<lparr>battery_percent_text := battery_percent,
                                 battery_progress_bar := update_bar battery_percent\<rparr>))))"

text \<open>
  The whole refresh, without the labels of the service buttons: group 1, group 2, the
  total current of the groups, the battery. An exception leaves what was done before it.
\<close>

definition refresh_telemetry_stats_on_gui ::
  "env \<Rightarrow> gui_values \<Rightarrow> state \<Rightarrow> gui \<Rightarrow> (py_error \<times> state \<times> gui) + (state \<times> gui)" where
  "refresh_telemetry_stats_on_gui e vals st w =
     (case refresh_group e vals GR1_keys ''-GR1_LIMIT_WH-'' st (group1 w) of
        Inl (err, g1) \<Rightarrow> Inl (err, st, w\<lparr>group1 := g1\<rparr>)
      | Inr g1 \<Rightarrow>
          (case refresh_group e vals GR2_keys ''-GR2_LIMIT_WH-'' st (group2 w) of
             Inl (err, g2) \<Rightarrow> Inl (err, st, w\<lparr>group1 := g1, group2 := g2\<rparr>)
           | Inr g2 \<Rightarrow>
               refresh_battery e vals st
                 (w\<lparr>group1 := g1, group2 := g2,
                    groups_a_text := group_A g1 + group_A g2\<rparr>)))"

subsection \<open>Reading results, and a concrete environment\<close>

text \<open>The globals a call leaves behind, whether it returned or raised.\<close>

definition globals_after :: "result \<Rightarrow> state" where
  "globals_after r = (case r of Inl (err, st) \<Rightarrow> st | Inr st \<Rightarrow> st)"

text \<open>The superscript two (U+00B2): \<^verbatim>\<open>isdigit()\<close> accepts it, \<^verbatim>\<open>int\<close> and \<^verbatim>\<open>float\<close> do not.\<close>

definition superscript_two :: string where
  "superscript_two = [CHR 0xC2, CHR 0xB2]"

text \<open>
  An environment for concrete runs. Timestamps are seconds since the epoch with the local
  time zone UTC, the clock stands at 3700 s, and a few decimal texts are read as floats.
  \<^verbatim>\<open>isdigit()\<close> is as Python has it on ASCII texts and on the superscript two, and
  \<^verbatim>\<open>int\<close> as Python has it on the texts that pass. The percentage is the exact quotient:
  the runs below only take it where the double computation is exact (-512 / 4096) or
  where its whole part is not read.
\<close>

definition test_env :: env where
  "test_env =
     \<lparr>fromisoformat_timestamp =
        map_of [(''1970-01-01 00:00:00.000'', 0), (''1970-01-01 00:00:10.000'', 10),
                (''1970-01-01 00:01:40.000'', 100), (''1970-01-01 00:01:50.000'', 110),
                (''1970-01-01 00:01:30.000'', 90), (''1970-01-01 01:01:40.000'', 3700)],
      utcnow_timestamp = 3700,
      py_float = map_of [(''0'', 0), (''10'', 10), (''50'', 50), (''0.5'', 0.5), (''-1.0'', - 1)],
      str_isdigit = (\<lambda>s. ascii_isdigit s \<or> s = superscript_two),
      py_int = (\<lambda>s. if ascii_isdigit s then Some (ascii_int s) else None),
      float_percent = (\<lambda>a b. a / b * 100)\<rparr>"

text \<open>The globals and the window a refresh leaves behind, whether it returned or raised.\<close>

definition after_refresh :: "(py_error \<times> state \<times> gui) + (state \<times> gui) \<Rightarrow> state \<times> gui" where
  "after_refresh r = (case r of Inl (err, x) \<Rightarrow> x | Inr x \<Rightarrow> x)"

text \<open>
  A window for concrete runs: the group dictionaries as \<^verbatim>\<open>main\<close> creates them, nothing
  shown yet; service 1 is ticked in group 1 only, and the three input fields hold the
  given texts.
\<close>

definition test_group :: group_view where
  "test_group =
     \<lparr>group_A = 0, group_Wh = 0, a_text = 0, wh_text = 0,
      limit_wh_background = ''white'', wh_background = ''white''\<rparr>"

definition test_gui :: gui where
  "test_gui =
     \<lparr>group1 = test_group, group2 = test_group, groups_a_text = 0,
      battery_wh_text = 0, battery_percent_text = 0, battery_progress_bar = 0\<rparr>"

definition test_values :: "string \<Rightarrow> string \<Rightarrow> string \<Rightarrow> gui_values" where
  "test_values limit1 limit2 offset =
     \<lparr>checkbox = (\<lambda>k. k = ''-S1GR1-''),
      input_text = (\<lambda>k. if k = ''-GR1_LIMIT_WH-'' then limit1
                        else if k = ''-GR2_LIMIT_WH-'' then limit2
                        else if k = ''-OFFSET_WH-'' then offset else [])\<rparr>"

section \<open>Properties\<close>

subsection \<open>Auxiliary facts\<close>

lemma decode_time_known:
  "fromisoformat_timestamp e field = Some t \<Longrightarrow> decode_time e field f st = (t, st)"
  by (simp add: decode_time_def)

lemma decode_time_frame:
  "\<exists>ws. snd (decode_time e field f st) = st\<lparr>warnings := warnings st @ ws\<rparr>"
proof (cases "fromisoformat_timestamp e field")
  case None
  then have "snd (decode_time e field f st) =
      st\<lparr>warnings := warnings st @ [(''ERROR: timestamp could not be decoded: '' @ field, f)]\<rparr>"
    by (simp add: decode_time_def log_warning_def)
  then show ?thesis by blast
next
  case (Some t)
  then have "snd (decode_time e field f st) = st\<lparr>warnings := warnings st @ []\<rparr>"
    by (simp add: decode_time_def)
  then show ?thesis by blast
qed

lemma parse_telemetry_fields:
  assumes "py_split raw = src # ts # hdr # rest"
  shows "parse_telemetry e raw f st =
     (let t = fst (decode_time e ts f st); st1 = snd (decode_time e ts f st) in
      if src \<noteq> ''PDU'' then
        (if hdr = ''EVENT'' then parse_telemetry_event (src # ts # hdr # rest) t st1 else Inr st1)
      else if hdr = ''SRVCSET'' then parse_telemetry_srvcset e (src # ts # hdr # rest) f st1
      else if hdr = ''STATUS'' then parse_telemetry_status e (src # ts # hdr # rest) t f st1
      else Inr st1)"
  using assms by (simp add: parse_telemetry_def Let_def split: prod.split)

lemma status_sample:
  assumes "wf_output st" "str_isdigit e sid" "py_int e sid = Some n" "1 \<le> n" "n \<le> 6"
    and "py_float e v = Some a"
  shows "\<exists>s'. parse_telemetry_status e (src # ts # hdr # sid # v # rest) t f st = Inr s' \<and>
      wf_output s' \<and>
      battery_nominal_voltage s' = battery_nominal_voltage st \<and>
      output_current s' ! nat (n - 1) = a \<and>
      output_last_update_time s' ! nat (n - 1) = t \<and>
      output_accumulated_Wh s' ! nat (n - 1) =
        (if output_last_update_time st ! nat (n - 1) > 0
         then output_accumulated_Wh st ! nat (n - 1) +
              a * ((t - output_last_update_time st ! nat (n - 1)) / 3600) *
              battery_nominal_voltage st
         else output_accumulated_Wh st ! nat (n - 1))"
proof -
  have k: "nat (n - 1) < 6" using assms(4,5) by simp
  show ?thesis
    using assms k by (simp add: parse_telemetry_status_def wf_output_def Let_def)
qed


lemma test_env_simps:
  "fromisoformat_timestamp test_env ''1970-01-01 00:00:00.000'' = Some 0"
  "fromisoformat_timestamp test_env ''1970-01-01 00:00:10.000'' = Some 10"
  "fromisoformat_timestamp test_env ''1970-01-01 00:01:40.000'' = Some 100"
  "fromisoformat_timestamp test_env ''1970-01-01 00:01:50.000'' = Some 110"
  "fromisoformat_timestamp test_env ''1970-01-01 00:01:30.000'' = Some 90"
  "fromisoformat_timestamp test_env ''1970-01-01 01:01:40.000'' = Some 3700"
  "utcnow_timestamp test_env = 3700"
  "py_float test_env ''0'' = Some 0"
  "py_float test_env ''10'' = Some 10"
  "py_float test_env ''0.5'' = Some 0.5"
  "py_float test_env ''-1.0'' = Some (- 1)"
  "py_float test_env ''50'' = Some 50"
  "str_isdigit test_env s = (ascii_isdigit s \<or> s = superscript_two)"
  "py_int test_env s = (if ascii_isdigit s then Some (ascii_int s) else None)"
  "float_percent test_env a b = a / b * 100"
  by (simp_all add: test_env_def)

lemmas eval_defs = parse_telemetry_def parse_telemetry_status_def parse_telemetry_event_def
  parse_telemetry_srvcset_def decode_time_def ascii_isdigit_def is_digit_char_def ascii_int_def
  superscript_two_def
  initial_state_def globals_after_def HEATERS_def log_warning_def Let_def

lemma decode_time_fields:
  assumes "decode_time e field f st = (t, st1)"
  shows "\<exists>ws. st1 = st\<lparr>warnings := warnings st @ ws\<rparr>"
  using decode_time_frame [of e field f st] assms by simp

lemma parse_telemetry_decoded:
  assumes "py_split raw = src # ts # hdr # rest" and "decode_time e ts f st = (t, st1)"
  shows "parse_telemetry e raw f st =
     (if src \<noteq> ''PDU'' then
        (if hdr = ''EVENT'' then parse_telemetry_event (src # ts # hdr # rest) t st1 else Inr st1)
      else if hdr = ''SRVCSET'' then parse_telemetry_srvcset e (src # ts # hdr # rest) f st1
      else if hdr = ''STATUS'' then parse_telemetry_status e (src # ts # hdr # rest) t f st1
      else Inr st1)"
  using assms by (simp add: parse_telemetry_fields)

lemma parse_telemetry_short:
  assumes "length (py_split raw) < 3"
  shows "parse_telemetry e raw f st = Inr (log_warning (''TM packet too short,'' @ raw) f st)"
  using assms by (simp add: parse_telemetry_def)

lemma three_fields:
  assumes "\<not> length xs < 3"
  shows "\<exists>a b c rest. xs = a # b # c # rest"
proof -
  obtain a xs1 where 1: "xs = a # xs1" using assms by (cases xs) auto
  obtain b xs2 where 2: "xs1 = b # xs2" using assms 1 by (cases xs1) auto
  obtain c xs3 where 3: "xs2 = c # xs3" using assms 1 2 by (cases xs2) auto
  show ?thesis using 1 2 3 by blast
qed

lemma event_frame:
  "output_is_on (globals_after (parse_telemetry_event packet t st)) = output_is_on st \<and>
   output_current (globals_after (parse_telemetry_event packet t st)) = output_current st \<and>
   battery_nominal_voltage (globals_after (parse_telemetry_event packet t st)) =
     battery_nominal_voltage st \<and>
   battery_heaters_consumption (globals_after (parse_telemetry_event packet t st)) =
     battery_heaters_consumption st \<and>
   battery_max_wh (globals_after (parse_telemetry_event packet t st)) = battery_max_wh st \<and>
   battery_progress_wh (globals_after (parse_telemetry_event packet t st)) =
     battery_progress_wh st \<and>
   warnings (globals_after (parse_telemetry_event packet t st)) = warnings st"
  by (simp add: parse_telemetry_event_def globals_after_def Let_def)

lemma event_frame_lists:
  assumes "i < 6"
  shows "output_last_update_time (globals_after (parse_telemetry_event packet t st)) ! i =
      output_last_update_time st ! i \<and>
    output_accumulated_Wh (globals_after (parse_telemetry_event packet t st)) ! i =
      output_accumulated_Wh st ! i"
  using assms by (simp add: parse_telemetry_event_def globals_after_def Let_def HEATERS_def)

lemma event_other:
  assumes "\<not> (3 < length packet \<and> (packet ! 3 = ''START_FLIGHT'' \<or> packet ! 3 = ''END_FLIGHT''))"
  shows "globals_after (parse_telemetry_event packet t st) = st"
  using assms by (auto simp add: parse_telemetry_event_def globals_after_def)

lemma event_exact_frame:
  "\<exists>b x y. globals_after (parse_telemetry_event packet t st) =
      st\<lparr>in_flight := b,
         output_last_update_time := (output_last_update_time st)[HEATERS := x],
         output_accumulated_Wh := (output_accumulated_Wh st)[HEATERS := y]\<rparr>"
proof -
  let ?frame = "\<lambda>b x y. st\<lparr>in_flight := b,
         output_last_update_time := (output_last_update_time st)[HEATERS := x],
         output_accumulated_Wh := (output_accumulated_Wh st)[HEATERS := y]\<rparr>"
  let ?l = "output_last_update_time st ! HEATERS"
  let ?w = "output_accumulated_Wh st ! HEATERS"
  let ?r = "globals_after (parse_telemetry_event packet t st)"
  have "?r = ?frame (in_flight st) ?l ?w \<or> ?r = ?frame True t ?w \<or> ?r = ?frame False 0 ?w \<or>
      ?r = ?frame False 0
        (?w + battery_heaters_consumption st * ((t - ?l) / 3600) * battery_nominal_voltage st)"
    by (simp add: parse_telemetry_event_def globals_after_def Let_def)
  then show ?thesis by blast
qed

lemma only_warnings_frame:
  assumes "\<exists>ws. s' = st\<lparr>warnings := warnings st @ ws\<rparr>"
  shows "output_is_on s' = output_is_on st \<and> output_current s' = output_current st \<and>
     (\<forall>i<6. output_last_update_time s' ! i = output_last_update_time st ! i \<and>
             output_accumulated_Wh s' ! i = output_accumulated_Wh st ! i) \<and>
     battery_nominal_voltage s' = battery_nominal_voltage st \<and>
     battery_heaters_consumption s' = battery_heaters_consumption st \<and>
     battery_max_wh s' = battery_max_wh st \<and>
     battery_progress_wh s' = battery_progress_wh st \<and>
     (\<exists>b x y ws.
        s' = st\<lparr>in_flight := b,
                output_last_update_time := (output_last_update_time st)[HEATERS := x],
                output_accumulated_Wh := (output_accumulated_Wh st)[HEATERS := y],
                warnings := warnings st @ ws\<rparr>) \<and>
     (P \<longrightarrow> (\<exists>ws. s' = st\<lparr>warnings := warnings st @ ws\<rparr>))"
proof -
  from assms obtain ws where s': "s' = st\<lparr>warnings := warnings st @ ws\<rparr>" ..
  have "s' = st\<lparr>in_flight := in_flight st,
         output_last_update_time :=
           (output_last_update_time st)[HEATERS := output_last_update_time st ! HEATERS],
         output_accumulated_Wh :=
           (output_accumulated_Wh st)[HEATERS := output_accumulated_Wh st ! HEATERS],
         warnings := warnings st @ ws\<rparr>"
    using s' by simp
  then have "\<exists>b x y ws.
        s' = st\<lparr>in_flight := b,
                output_last_update_time := (output_last_update_time st)[HEATERS := x],
                output_accumulated_Wh := (output_accumulated_Wh st)[HEATERS := y],
                warnings := warnings st @ ws\<rparr>"
    by blast
  then show ?thesis using s' assms by simp
qed

lemma upt_six: "[0..<6] = [0, 1, 2, 3, 4, 5]"
  by code_simp

lemma refresh_group_returns:
  assumes "py_float e (input_text vals limit_key) = Some limit"
  shows "refresh_group e vals keys limit_key st g =
     Inr (g\<lparr>group_A := group_sum (checkbox vals) keys (output_current st),
            group_Wh := group_sum (checkbox vals) keys (output_accumulated_Wh st),
            a_text := group_sum (checkbox vals) keys (output_current st),
            wh_text := group_sum (checkbox vals) keys (output_accumulated_Wh st),
            limit_wh_background :=
              limit_background limit (group_sum (checkbox vals) keys (output_accumulated_Wh st))
                (limit_wh_background g),
            wh_background :=
              limit_background limit (group_sum (checkbox vals) keys (output_accumulated_Wh st))
                (wh_background g)\<rparr>)"
  using assms by (simp add: refresh_group_def Let_def)

subsection \<open>Energy of two STATUS samples\<close>

text \<open>
  Claim C1, as the code has it. A service whose last update time is unset (not positive)
  receives two STATUS replies of the PDU, with currents \<open>a1\<close> at time \<open>t1\<close> and \<open>a2\<close> at
  time \<open>t2\<close>, where \<open>0 < t1 < t2\<close>. Both are processed without an exception. The first
  one stores its current and its time and adds no energy; after the second one the
  accumulated energy has grown by exactly \<open>a2 * ((t2 - t1) / 3600) * nominal_voltage\<close>.
  The time \<open>t1\<close> has to be positive, because 0.0 is the mark of "no sample yet".
\<close>

theorem status_two_samples_energy:
  assumes wf: "wf_output st"
    and p1: "py_split raw1 = ''PDU'' # ts1 # ''STATUS'' # sid # v1 # rest1"
    and p2: "py_split raw2 = ''PDU'' # ts2 # ''STATUS'' # sid # v2 # rest2"
    and sid: "str_isdigit e sid" "py_int e sid = Some n" "1 \<le> n" "n \<le> 6"
    and ts: "fromisoformat_timestamp e ts1 = Some t1" "fromisoformat_timestamp e ts2 = Some t2"
    and amps: "py_float e v1 = Some a1" "py_float e v2 = Some a2"
    and unset: "output_last_update_time st ! nat (n - 1) \<le> 0"
    and times: "0 < t1" "t1 < t2"
  shows "\<exists>s1 s2. parse_telemetry e raw1 f st = Inr s1 \<and> parse_telemetry e raw2 f s1 = Inr s2 \<and>
      output_current s1 ! nat (n - 1) = a1 \<and>
      output_last_update_time s1 ! nat (n - 1) = t1 \<and>
      output_accumulated_Wh s1 ! nat (n - 1) =
        output_accumulated_Wh st ! nat (n - 1) \<and>
      output_accumulated_Wh s2 ! nat (n - 1) =
        output_accumulated_Wh st ! nat (n - 1) +
        a2 * ((t2 - t1) / 3600) * battery_nominal_voltage st"
proof -
  let ?k = "nat (n - 1)"
  have r1: "parse_telemetry e raw1 f st =
      parse_telemetry_status e (''PDU'' # ts1 # ''STATUS'' # sid # v1 # rest1) t1 f st"
    using p1 ts(1) by (simp add: parse_telemetry_fields decode_time_known)
  from status_sample [OF wf sid amps(1), of "''PDU''" ts1 "''STATUS''" rest1 t1 f]
  obtain s1 where s1: "parse_telemetry_status e (''PDU'' # ts1 # ''STATUS'' # sid # v1 # rest1) t1 f st = Inr s1"
    and wf1: "wf_output s1"
    and v1: "battery_nominal_voltage s1 = battery_nominal_voltage st"
    and c1: "output_current s1 ! ?k = a1"
    and l1: "output_last_update_time s1 ! ?k = t1"
    and w1: "output_accumulated_Wh s1 ! ?k = output_accumulated_Wh st ! ?k"
    using unset by auto
  have r2: "parse_telemetry e raw2 f s1 =
      parse_telemetry_status e (''PDU'' # ts2 # ''STATUS'' # sid # v2 # rest2) t2 f s1"
    using p2 ts(2) by (simp add: parse_telemetry_fields decode_time_known)
  from status_sample [OF wf1 sid amps(2), of "''PDU''" ts2 "''STATUS''" rest2 t2 f]
  obtain s2 where s2: "parse_telemetry_status e (''PDU'' # ts2 # ''STATUS'' # sid # v2 # rest2) t2 f s1 = Inr s2"
    and w2: "output_accumulated_Wh s2 ! ?k =
        output_accumulated_Wh st ! ?k + a2 * ((t2 - t1) / 3600) * battery_nominal_voltage st"
    using l1 w1 v1 times by auto
  show ?thesis
    using r1 s1 r2 s2 c1 l1 w1 w2 by simp
qed

text \<open>
  A first sample stamped with the epoch itself (time 0.0) leaves the service unset, so
  the second sample, ten seconds later, adds nothing: the energy stays 0.
\<close>

theorem status_sample_at_epoch_counterexample:
  "output_accumulated_Wh
     (globals_after (parse_telemetry test_env ''PDU,1970-01-01 00:00:10.000,STATUS,1,0.5'' True
        (globals_after (parse_telemetry test_env ''PDU,1970-01-01 00:00:00.000,STATUS,1,0.5'' True
           (initial_state 28 0.9 3750))))) ! 0
   \<noteq> 0.5 * (10 - 0) / 3600 * 28"
  by (simp add: eval_defs test_env_simps)

text \<open>Two samples of 0.5 A on service 1, at 10 s and at 100 s, on a 28 V battery.\<close>

theorem status_two_samples_energy_witness:
  "output_accumulated_Wh
     (globals_after (parse_telemetry test_env ''PDU,1970-01-01 00:01:40.000,STATUS,1,0.5'' True
        (globals_after (parse_telemetry test_env ''PDU,1970-01-01 00:00:10.000,STATUS,1,0.5'' True
           (initial_state 28 0.9 3750))))) ! 0
   = 0.5 * ((100 - 10) / 3600) * 28"
proof -
  have wf: "wf_output (initial_state 28 0.9 3750)"
    by (simp add: wf_output_def initial_state_def)
  have p1: "py_split ''PDU,1970-01-01 00:00:10.000,STATUS,1,0.5'' =
      ''PDU'' # ''1970-01-01 00:00:10.000'' # ''STATUS'' # ''1'' # ''0.5'' # []"
    by simp
  have p2: "py_split ''PDU,1970-01-01 00:01:40.000,STATUS,1,0.5'' =
      ''PDU'' # ''1970-01-01 00:01:40.000'' # ''STATUS'' # ''1'' # ''0.5'' # []"
    by simp
  have sid: "str_isdigit test_env ''1''" "py_int test_env ''1'' = Some 1" "(1::int) \<le> 1" "(1::int) \<le> 6"
    by (simp_all add: test_env_simps ascii_isdigit_def is_digit_char_def ascii_int_def)
  have unset: "output_last_update_time (initial_state 28 0.9 3750) ! nat (1 - 1) \<le> 0"
    by (simp add: initial_state_def)
  have times: "(0::real) < 10" "(10::real) < 100" by simp_all
  from status_two_samples_energy [OF wf p1 p2 sid test_env_simps(2) test_env_simps(3)
      test_env_simps(10) test_env_simps(10) unset times, of True]
  show ?thesis
    by (auto simp add: globals_after_def initial_state_def)
qed

subsection \<open>Out-of-order samples\<close>

text \<open>
  Claim C2 fails on the code: the STATUS branch has no test of the sign of the interval
  (the heaters' branches have one). Service 1 gets 0.5 A at 10 s and at 100 s, which
  accumulates 0.35 Wh; a third sample stamped 90 s then takes energy away.
\<close>

theorem status_out_of_order_decreases_energy:
  "output_accumulated_Wh
     (globals_after (parse_telemetry test_env ''PDU,1970-01-01 00:01:40.000,STATUS,1,0.5'' True
        (globals_after (parse_telemetry test_env ''PDU,1970-01-01 00:00:10.000,STATUS,1,0.5'' True
           (initial_state 28 0.9 3750))))) ! 0 = 0.35 \<and>
   output_accumulated_Wh
     (globals_after (parse_telemetry test_env ''PDU,1970-01-01 00:01:30.000,STATUS,1,0.5'' True
        (globals_after (parse_telemetry test_env ''PDU,1970-01-01 00:01:40.000,STATUS,1,0.5'' True
           (globals_after (parse_telemetry test_env ''PDU,1970-01-01 00:00:10.000,STATUS,1,0.5'' True
              (initial_state 28 0.9 3750))))))) ! 0 < 0.35"
  by (simp add: eval_defs test_env_simps)

subsection \<open>Packets that raise\<close>

text \<open>
  Claim C3 fails on the code: \<^verbatim>\<open>parse_telemetry\<close> tests the number of fields of a
  SRVCSET or STATUS reply, but reads the fourth field of an EVENT without a test, and it
  guards the decoding of the timestamp but not of the amps. An EVENT with three fields
  raises \<^verbatim>\<open>IndexError\<close>, a STATUS reply with amps \<^verbatim>\<open>abc\<close> raises \<^verbatim>\<open>ValueError\<close>.
\<close>

theorem parse_telemetry_raises:
  "parse_telemetry test_env ''GND,1970-01-01 00:01:40.000,EVENT'' False
     (initial_state 28 0.9 3750) = Inl (IndexError, initial_state 28 0.9 3750) \<and>
   parse_telemetry test_env ''PDU,1970-01-01 00:01:40.000,STATUS,1,abc'' True
     (initial_state 28 0.9 3750) = Inl (ValueError, initial_state 28 0.9 3750)"
  by (simp add: eval_defs test_env_simps test_env_def)

subsection \<open>Ending a flight with the button\<close>

text \<open>
  Claim C4 fails on the code for the button. In flight since 100 s, with the clock at
  3700 s: the \<^verbatim>\<open>END_FLIGHT\<close> event adds the last hour (0.9 A at 28 V, 25.2 Wh) and unsets
  the heaters' last update time; the FLIGHT TOGGLE button adds nothing and sets the last
  update time to the clock instead.
\<close>

theorem flight_toggle_end_skips_final_interval:
  "parse_telemetry test_env ''GND,1970-01-01 01:01:40.000,EVENT,END_FLIGHT'' False
     ((initial_state 28 0.9 3750)
        \<lparr>in_flight := True, output_last_update_time := [0, 0, 0, 0, 0, 0, 100]\<rparr>) =
   Inr ((initial_state 28 0.9 3750)
        \<lparr>in_flight := False, output_last_update_time := [0, 0, 0, 0, 0, 0, 0],
          output_accumulated_Wh := [0, 0, 0, 0, 0, 0, 25.2]\<rparr>) \<and>
   flight_toggle test_env
     ((initial_state 28 0.9 3750)
        \<lparr>in_flight := True, output_last_update_time := [0, 0, 0, 0, 0, 0, 100]\<rparr>) =
   (initial_state 28 0.9 3750)
        \<lparr>in_flight := False, output_last_update_time := [0, 0, 0, 0, 0, 0, 3700],
          output_accumulated_Wh := [0, 0, 0, 0, 0, 0, 0]\<rparr>"
  by (simp add: eval_defs test_env_simps flight_toggle_def)

subsection \<open>Flight events are not checked against the session\<close>

text \<open>
  Claim C5, as the code has it. The code has no test of the session state and no
  diagnostic for a transition: an \<^verbatim>\<open>END_FLIGHT\<close> event received while the heaters' last
  update time is unset (not positive, as it is in the initial idle state) changes nothing
  and adds no warning; a \<^verbatim>\<open>START_FLIGHT\<close> event is accepted in every session state,
  also in flight: the session is in flight afterwards, the accumulated energy is as
  before, the heaters' last update time becomes the time of the packet, and no warning is
  added.
\<close>

theorem flight_events_unchecked:
  assumes p: "py_split raw = src # ts # ''EVENT'' # name # rest"
    and src: "src \<noteq> ''PDU''"
    and dt: "decode_time e ts f st = (t, st1)"
  shows "(name = ''END_FLIGHT'' \<and> output_last_update_time st ! HEATERS \<le> 0 \<longrightarrow>
        parse_telemetry e raw f st = Inr st1) \<and>
     (name = ''START_FLIGHT'' \<longrightarrow>
        parse_telemetry e raw f st =
          Inr (st1\<lparr>in_flight := True,
                   output_last_update_time := (output_last_update_time st)[HEATERS := t]\<rparr>))"
proof -
  from decode_time_fields [OF dt] obtain ws where st1: "st1 = st\<lparr>warnings := warnings st @ ws\<rparr>" ..
  have r: "parse_telemetry e raw f st =
      parse_telemetry_event (src # ts # ''EVENT'' # name # rest) t st1"
    using p src dt by (simp add: parse_telemetry_decoded)
  show ?thesis
    unfolding r using st1 by (simp add: parse_telemetry_event_def)
qed

text \<open>
  In flight since 100 s, a second \<^verbatim>\<open>START_FLIGHT\<close> event at 110 s is accepted without a
  warning and moves the heaters' last update time: the ten seconds between are lost.
\<close>

theorem start_flight_in_flight_counterexample:
  "in_flight
     (globals_after (parse_telemetry test_env ''GND,1970-01-01 00:01:40.000,EVENT,START_FLIGHT''
        False (initial_state 28 0.9 3750))) \<and>
   output_last_update_time
     (globals_after (parse_telemetry test_env ''GND,1970-01-01 00:01:50.000,EVENT,START_FLIGHT''
        False
        (globals_after (parse_telemetry test_env ''GND,1970-01-01 00:01:40.000,EVENT,START_FLIGHT''
           False (initial_state 28 0.9 3750))))) ! HEATERS
   \<noteq> output_last_update_time
       (globals_after (parse_telemetry test_env ''GND,1970-01-01 00:01:40.000,EVENT,START_FLIGHT''
          False (initial_state 28 0.9 3750))) ! HEATERS \<and>
   warnings
     (globals_after (parse_telemetry test_env ''GND,1970-01-01 00:01:50.000,EVENT,START_FLIGHT''
        False
        (globals_after (parse_telemetry test_env ''GND,1970-01-01 00:01:40.000,EVENT,START_FLIGHT''
           False (initial_state 28 0.9 3750))))) = []"
  by (simp add: eval_defs test_env_simps)

text \<open>
  An \<^verbatim>\<open>END_FLIGHT\<close> event on the initial (idle) state, and a \<^verbatim>\<open>START_FLIGHT\<close> event at
  110 s on a state in flight since 100 s.
\<close>

theorem flight_events_unchecked_witness:
  "parse_telemetry test_env ''GND,1970-01-01 00:01:40.000,EVENT,END_FLIGHT'' False
     (initial_state 28 0.9 3750) = Inr (initial_state 28 0.9 3750) \<and>
   parse_telemetry test_env ''GND,1970-01-01 00:01:50.000,EVENT,START_FLIGHT'' False
     ((initial_state 28 0.9 3750)
        \<lparr>in_flight := True, output_last_update_time := [0, 0, 0, 0, 0, 0, 100]\<rparr>) =
   Inr ((initial_state 28 0.9 3750)
        \<lparr>in_flight := True, output_last_update_time := [0, 0, 0, 0, 0, 0, 110]\<rparr>)"
proof -
  let ?st0 = "initial_state 28 0.9 3750"
  let ?st1 = "(initial_state 28 0.9 3750)
        \<lparr>in_flight := True, output_last_update_time := [0, 0, 0, 0, 0, 0, 100]\<rparr>"
  have p0: "py_split ''GND,1970-01-01 00:01:40.000,EVENT,END_FLIGHT'' =
      ''GND'' # ''1970-01-01 00:01:40.000'' # ''EVENT'' # ''END_FLIGHT'' # []"
    by simp
  have p1: "py_split ''GND,1970-01-01 00:01:50.000,EVENT,START_FLIGHT'' =
      ''GND'' # ''1970-01-01 00:01:50.000'' # ''EVENT'' # ''START_FLIGHT'' # []"
    by simp
  have src: "''GND'' \<noteq> ''PDU''" by simp
  have dt0: "decode_time test_env ''1970-01-01 00:01:40.000'' False ?st0 = (100, ?st0)"
    by (simp add: decode_time_def test_env_simps)
  have dt1: "decode_time test_env ''1970-01-01 00:01:50.000'' False ?st1 = (110, ?st1)"
    by (simp add: decode_time_def test_env_simps)
  have unarmed: "output_last_update_time ?st0 ! HEATERS \<le> 0"
    by (simp add: initial_state_def HEATERS_def)
  from flight_events_unchecked [OF p0 src dt0] unarmed
  have a: "parse_telemetry test_env ''GND,1970-01-01 00:01:40.000,EVENT,END_FLIGHT'' False ?st0 = Inr ?st0"
    by simp
  from flight_events_unchecked [OF p1 src dt1]
  have b: "parse_telemetry test_env ''GND,1970-01-01 00:01:50.000,EVENT,START_FLIGHT'' False ?st1 =
      Inr (?st1\<lparr>in_flight := True,
              output_last_update_time := (output_last_update_time ?st1)[HEATERS := 110]\<rparr>)"
    by simp
  show ?thesis using a b by (simp add: initial_state_def HEATERS_def)
qed

subsection \<open>Replies with a bad service index\<close>

text \<open>
  Claim C6 fails on the code for a service index that \<^verbatim>\<open>isdigit()\<close> accepts and
  \<^verbatim>\<open>int\<close> refuses. The index is tested with \<^verbatim>\<open>isdigit()\<close> so that a text that is no
  number gets the warning "Bad service index"; the superscript two passes that test, and
  \<^verbatim>\<open>int\<close> then raises \<^verbatim>\<open>ValueError\<close>: the STATUS reply and the SRVCSET reply below
  leave \<^verbatim>\<open>parse_telemetry\<close> with an exception and without a warning. No state is changed.
\<close>

theorem superscript_index_raises:
  "parse_telemetry test_env (''PDU,1970-01-01 00:01:40.000,STATUS,'' @ superscript_two @ '',0.5'')
     True (initial_state 28 0.9 3750) = Inl (ValueError, initial_state 28 0.9 3750) \<and>
   parse_telemetry test_env (''PDU,1970-01-01 00:01:40.000,SRVCSET,'' @ superscript_two @ '',1'')
     True (initial_state 28 0.9 3750) = Inl (ValueError, initial_state 28 0.9 3750)"
  by (simp add: eval_defs test_env_simps)

text \<open>The three readings of the superscript two that the run above takes.\<close>

lemma superscript_two_digit:
  "str_isdigit test_env superscript_two \<and> py_int test_env superscript_two = None \<and>
   py_float test_env superscript_two = None"
  by (simp add: test_env_def superscript_two_def ascii_isdigit_def is_digit_char_def)

text \<open>
  What does hold: when \<^verbatim>\<open>isdigit()\<close> refuses the index, or \<^verbatim>\<open>int\<close> reads it as a number
  outside 1..6, the packet returns normally, a warning that names the rejection is
  appended, and nothing else changes. A STATUS reply for service 7 is such a packet.
\<close>

lemma bad_service_index_warned:
  assumes p: "py_split raw = ''PDU'' # ts # hdr # sid # rest"
    and hdr: "hdr = ''SRVCSET'' \<or> hdr = ''STATUS''"
    and bad: "\<not> str_isdigit e sid \<or> (\<exists>n. py_int e sid = Some n \<and> (n < 1 \<or> 6 < n))"
  shows "\<exists>ws msg. parse_telemetry e raw f st =
        Inr (st\<lparr>warnings := warnings st @ ws @ [(msg, f)]\<rparr>) \<and>
      msg \<in> set [hdr @ '' packet error - Too short'',
                  ''Service index ('' @ sid @ '') out of range for '' @ hdr @ '' received'',
                  ''Bad service index ('' @ sid @ '') for '' @ hdr @ '' received'']"
proof -
  obtain t st1 where dt: "decode_time e ts f st = (t, st1)" by (cases "decode_time e ts f st")
  from decode_time_fields [OF dt] obtain ws where st1: "st1 = st\<lparr>warnings := warnings st @ ws\<rparr>" ..
  have lw: "\<And>msg. log_warning msg f st1 = st\<lparr>warnings := warnings st @ ws @ [(msg, f)]\<rparr>"
    using st1 by (simp add: log_warning_def)
  from hdr show ?thesis
  proof
    assume h: "hdr = ''SRVCSET''"
    have r: "parse_telemetry e raw f st =
        parse_telemetry_srvcset e (''PDU'' # ts # hdr # sid # rest) f st1"
      using p dt h by (simp add: parse_telemetry_decoded)
    have "\<exists>msg. parse_telemetry_srvcset e (''PDU'' # ts # hdr # sid # rest) f st1 =
          Inr (log_warning msg f st1) \<and>
        msg \<in> set [hdr @ '' packet error - Too short'',
                    ''Service index ('' @ sid @ '') out of range for '' @ hdr @ '' received'',
                    ''Bad service index ('' @ sid @ '') for '' @ hdr @ '' received'']"
      using bad h by (auto simp add: parse_telemetry_srvcset_def Let_def)
    then show ?thesis using r lw by auto
  next
    assume h: "hdr = ''STATUS''"
    have r: "parse_telemetry e raw f st =
        parse_telemetry_status e (''PDU'' # ts # hdr # sid # rest) t f st1"
      using p dt h by (simp add: parse_telemetry_decoded)
    have "\<exists>msg. parse_telemetry_status e (''PDU'' # ts # hdr # sid # rest) t f st1 =
          Inr (log_warning msg f st1) \<and>
        msg \<in> set [hdr @ '' packet error - Too short'',
                    ''Service index ('' @ sid @ '') out of range for '' @ hdr @ '' received'',
                    ''Bad service index ('' @ sid @ '') for '' @ hdr @ '' received'']"
      using bad h by (auto simp add: parse_telemetry_status_def Let_def)
    then show ?thesis using r lw by auto
  qed
qed

lemma service_seven_warned:
  "parse_telemetry test_env ''PDU,1970-01-01 00:01:40.000,STATUS,7,0.5'' True
     (initial_state 28 0.9 3750) =
   Inr ((initial_state 28 0.9 3750)
          \<lparr>warnings := [(''Service index (7) out of range for STATUS received'', True)]\<rparr>)"
  by (simp add: eval_defs test_env_simps)

subsection \<open>The battery budget\<close>




text \<open>
  An offset text that \<^verbatim>\<open>isdigit()\<close> accepts and \<^verbatim>\<open>float\<close> refuses ends the refresh with
  \<^verbatim>\<open>ValueError\<close>, after \<^verbatim>\<open>battery['progress_wh']\<close> was set to 0.0.
\<close>

lemma superscript_offset_raises:
  "refresh_telemetry_stats_on_gui test_env (test_values ''0'' ''0'' superscript_two)
     (initial_state 28 0.9 3750) test_gui =
   Inl (ValueError, (initial_state 28 0.9 3750)\<lparr>battery_progress_wh := 0\<rparr>, test_gui)"
  by (simp add: refresh_telemetry_stats_on_gui_def refresh_group_def refresh_battery_def
      test_values_def test_env_simps offset_wh_def test_gui_def test_group_def
      group_sum_def GR1_keys_def GR2_keys_def limit_background_def
      ascii_isdigit_def is_digit_char_def superscript_two_def initial_state_def
      test_env_def Let_def upt_six)

subsection \<open>Packets that do not come from the PDU\<close>

text \<open>
  Claim C8. Whatever a packet holds, when its source field is not \<^verbatim>\<open>PDU\<close> the globals
  that \<^verbatim>\<open>parse_telemetry\<close> leaves (on return or on an exception) have the same
  \<^verbatim>\<open>is_on\<close>, current, last update time and accumulated energy for each of the six
  services, and the same battery configuration and budget: the globals differ from
  those before the packet at most in \<^verbatim>\<open>in_flight\<close>, in the heaters' item of the last
  update times and of the accumulated energy, and in the warnings. Unless the packet is
  an EVENT named
  \<^verbatim>\<open>START_FLIGHT\<close> or \<^verbatim>\<open>END_FLIGHT\<close>, nothing changes at all, apart from warnings
  added to the log.
\<close>

theorem non_pdu_packet_frame:
  assumes src: "py_split raw ! 0 \<noteq> ''PDU''"
    and s': "s' = globals_after (parse_telemetry e raw f st)"
  shows "output_is_on s' = output_is_on st \<and> output_current s' = output_current st \<and>
     (\<forall>i<6. output_last_update_time s' ! i = output_last_update_time st ! i \<and>
             output_accumulated_Wh s' ! i = output_accumulated_Wh st ! i) \<and>
     battery_nominal_voltage s' = battery_nominal_voltage st \<and>
     battery_heaters_consumption s' = battery_heaters_consumption st \<and>
     battery_max_wh s' = battery_max_wh st \<and>
     battery_progress_wh s' = battery_progress_wh st \<and>
     (\<exists>b x y ws.
        s' = st\<lparr>in_flight := b,
                output_last_update_time := (output_last_update_time st)[HEATERS := x],
                output_accumulated_Wh := (output_accumulated_Wh st)[HEATERS := y],
                warnings := warnings st @ ws\<rparr>) \<and>
     (\<not> (3 < length (py_split raw) \<and> py_split raw ! 2 = ''EVENT'' \<and>
          (py_split raw ! 3 = ''START_FLIGHT'' \<or> py_split raw ! 3 = ''END_FLIGHT'')) \<longrightarrow>
      (\<exists>ws. s' = st\<lparr>warnings := warnings st @ ws\<rparr>))"
proof (cases "length (py_split raw) < 3")
  case True
  then have "s' = st\<lparr>warnings := warnings st @ [(''TM packet too short,'' @ raw, f)]\<rparr>"
    using s' by (simp add: parse_telemetry_short globals_after_def log_warning_def)
  then have "\<exists>ws. s' = st\<lparr>warnings := warnings st @ ws\<rparr>" by blast
  then show ?thesis by (rule only_warnings_frame)
next
  case False
  from three_fields [OF False] obtain a ts hdr rest where p: "py_split raw = a # ts # hdr # rest"
    by blast
  obtain t st1 where dt: "decode_time e ts f st = (t, st1)" by (cases "decode_time e ts f st")
  from decode_time_fields [OF dt] obtain ws where st1: "st1 = st\<lparr>warnings := warnings st @ ws\<rparr>" ..
  have a: "a \<noteq> ''PDU''" using src p by simp
  show ?thesis
  proof (cases "hdr = ''EVENT''")
    case False
    then have "s' = st1" using s' p dt a by (simp add: parse_telemetry_decoded globals_after_def)
    then have "\<exists>ws. s' = st\<lparr>warnings := warnings st @ ws\<rparr>" using st1 by blast
    then show ?thesis by (rule only_warnings_frame)
  next
    case True
    then have r: "s' = globals_after (parse_telemetry_event (a # ts # hdr # rest) t st1)"
      using s' p dt a by (simp add: parse_telemetry_decoded)
    have 1: "output_is_on s' = output_is_on st \<and> output_current s' = output_current st \<and>
        battery_nominal_voltage s' = battery_nominal_voltage st \<and>
        battery_heaters_consumption s' = battery_heaters_consumption st \<and>
        battery_max_wh s' = battery_max_wh st \<and>
        battery_progress_wh s' = battery_progress_wh st"
      using r st1 event_frame [of "a # ts # hdr # rest" t st1] by simp
    from event_exact_frame [of "a # ts # hdr # rest" t st1] obtain b x y where
      "s' = st1\<lparr>in_flight := b,
               output_last_update_time := (output_last_update_time st1)[HEATERS := x],
               output_accumulated_Wh := (output_accumulated_Wh st1)[HEATERS := y]\<rparr>"
      using r by auto
    then have "s' = st\<lparr>in_flight := b,
               output_last_update_time := (output_last_update_time st)[HEATERS := x],
               output_accumulated_Wh := (output_accumulated_Wh st)[HEATERS := y],
               warnings := warnings st @ ws\<rparr>"
      using st1 by simp
    then have 4: "\<exists>b x y ws.
        s' = st\<lparr>in_flight := b,
                output_last_update_time := (output_last_update_time st)[HEATERS := x],
                output_accumulated_Wh := (output_accumulated_Wh st)[HEATERS := y],
                warnings := warnings st @ ws\<rparr>"
      by blast
    have 2: "\<forall>i<6. output_last_update_time s' ! i = output_last_update_time st ! i \<and>
        output_accumulated_Wh s' ! i = output_accumulated_Wh st ! i"
      using r st1 event_frame_lists [of _ "a # ts # hdr # rest" t st1] by simp
    have 3: "\<not> (3 < length (py_split raw) \<and> py_split raw ! 2 = ''EVENT'' \<and>
          (py_split raw ! 3 = ''START_FLIGHT'' \<or> py_split raw ! 3 = ''END_FLIGHT'')) \<longrightarrow>
      (\<exists>ws. s' = st\<lparr>warnings := warnings st @ ws\<rparr>)"
    proof
      assume n: "\<not> (3 < length (py_split raw) \<and> py_split raw ! 2 = ''EVENT'' \<and>
          (py_split raw ! 3 = ''START_FLIGHT'' \<or> py_split raw ! 3 = ''END_FLIGHT''))"
      have "\<not> (3 < length (a # ts # hdr # rest) \<and>
          ((a # ts # hdr # rest) ! 3 = ''START_FLIGHT'' \<or> (a # ts # hdr # rest) ! 3 = ''END_FLIGHT''))"
        using n p True by simp
      from event_other [OF this] have "s' = st1" using r by simp
      then show "\<exists>ws. s' = st\<lparr>warnings := warnings st @ ws\<rparr>" using st1 by blast
    qed
    from 1 2 3 4 show ?thesis by blast
  qed
qed

text \<open>
  A STATUS packet for service 1 from the ground (source \<^verbatim>\<open>GND\<close>), after a sample of the
  PDU at 10 s: it changes nothing at all.
\<close>

theorem non_pdu_packet_frame_witness:
  "globals_after (parse_telemetry test_env ''GND,1970-01-01 00:01:40.000,STATUS,1,0.5'' True
     ((initial_state 28 0.9 3750)\<lparr>output_last_update_time := [10, 0, 0, 0, 0, 0, 0]\<rparr>)) =
   (initial_state 28 0.9 3750)\<lparr>output_last_update_time := [10, 0, 0, 0, 0, 0, 0]\<rparr>"
proof -
  let ?st = "(initial_state 28 0.9 3750)\<lparr>output_last_update_time := [10, 0, 0, 0, 0, 0, 0]\<rparr>"
  let ?raw = "''GND,1970-01-01 00:01:40.000,STATUS,1,0.5''"
  have p: "py_split ?raw = [''GND'', ''1970-01-01 00:01:40.000'', ''STATUS'', ''1'', ''0.5'']"
    by simp
  have src: "py_split ?raw ! 0 \<noteq> ''PDU''" unfolding p by simp
  have n: "\<not> (3 < length (py_split ?raw) \<and> py_split ?raw ! 2 = ''EVENT'' \<and>
          (py_split ?raw ! 3 = ''START_FLIGHT'' \<or> py_split ?raw ! 3 = ''END_FLIGHT''))"
    unfolding p by simp
  from non_pdu_packet_frame [OF src refl, of test_env True ?st] n
  obtain ws where ws: "globals_after (parse_telemetry test_env ?raw True ?st) =
      ?st\<lparr>warnings := warnings ?st @ ws\<rparr>"
    by blast
  have "warnings (globals_after (parse_telemetry test_env ?raw True ?st)) = []"
    by (simp add: eval_defs test_env_simps)
  then have "ws = []" using ws by (simp add: initial_state_def)
  then show ?thesis using ws by (simp add: initial_state_def)
qed

subsection \<open>The limit of a group\<close>

text \<open>
  Claim C9, as the code has it. With a limit text that \<^verbatim>\<open>float\<close> reads as \<open>limit\<close>, the
  refresh of a group returns with the group's energy summed over its ticked services.
  When \<open>limit > 0\<close> the two backgrounds are set to red exactly when
  \<open>limit - Wh \<le> 0.1 * limit\<close> and to white otherwise. When \<open>limit \<le> 0\<close> the evaluation is
  skipped: the backgrounds keep the colour they had.
\<close>

theorem group_limit_evaluation:
  assumes "py_float e (input_text vals limit_key) = Some limit"
  shows "\<exists>g'. refresh_group e vals keys limit_key st g = Inr g' \<and>
      group_Wh g' = group_sum (checkbox vals) keys (output_accumulated_Wh st) \<and>
      (0 < limit \<and> limit - group_Wh g' \<le> 0.1 * limit \<longrightarrow>
         limit_wh_background g' = ''red'' \<and> wh_background g' = ''red'') \<and>
      (0 < limit \<and> \<not> limit - group_Wh g' \<le> 0.1 * limit \<longrightarrow>
         limit_wh_background g' = ''white'' \<and> wh_background g' = ''white'') \<and>
      (limit \<le> 0 \<longrightarrow>
         limit_wh_background g' = limit_wh_background g \<and> wh_background g' = wh_background g)"
  unfolding refresh_group_returns [OF assms]
  by (simp add: limit_background_def Let_def mult.commute)

text \<open>
  Service 1 has used 9.5 Wh and is alone in group 1. With the limit 10 the group turns
  red; when the limit is then set to 0 (disabled) the next refresh leaves it red.
\<close>

theorem group_limit_disabled_counterexample:
  "limit_wh_background
     (group1 (snd (after_refresh (refresh_telemetry_stats_on_gui test_env
        (test_values ''0'' ''0'' [])
        ((initial_state 28 0.9 3750)\<lparr>output_accumulated_Wh := [9.5, 0, 0, 0, 0, 0, 0]\<rparr>)
        (snd (after_refresh (refresh_telemetry_stats_on_gui test_env
           (test_values ''10'' ''0'' [])
           ((initial_state 28 0.9 3750)\<lparr>output_accumulated_Wh := [9.5, 0, 0, 0, 0, 0, 0]\<rparr>)
           test_gui))))))) = ''red''"
  by (simp add: refresh_telemetry_stats_on_gui_def refresh_group_def refresh_battery_def
      after_refresh_def test_values_def test_gui_def test_group_def test_env_simps
      limit_background_def group_sum_def GR1_keys_def GR2_keys_def initial_state_def Let_def
      offset_wh_def upt_six)


text \<open>
  Group 1 with the limit 10 and 9.5 Wh used by service 1: 0.5 Wh are left, within the
  tenth of the limit, and both backgrounds are red.
\<close>

theorem group_limit_evaluation_witness:
  "\<exists>g'. refresh_group test_env (test_values ''10'' ''0'' []) GR1_keys ''-GR1_LIMIT_WH-''
       ((initial_state 28 0.9 3750)\<lparr>output_accumulated_Wh := [9.5, 0, 0, 0, 0, 0, 0]\<rparr>)
       test_group = Inr g' \<and>
     group_Wh g' = 9.5 \<and> limit_wh_background g' = ''red'' \<and> wh_background g' = ''red''"
proof -
  let ?st = "(initial_state 28 0.9 3750)\<lparr>output_accumulated_Wh := [9.5, 0, 0, 0, 0, 0, 0]\<rparr>"
  have l: "py_float test_env (input_text (test_values ''10'' ''0'' []) ''-GR1_LIMIT_WH-'') = Some 10"
    by (simp add: test_values_def test_env_simps)
  have wh: "group_sum (checkbox (test_values ''10'' ''0'' [])) GR1_keys (output_accumulated_Wh ?st) = 9.5"
    by (simp add: group_sum_def GR1_keys_def test_values_def initial_state_def upt_six)
  from group_limit_evaluation [OF l, of GR1_keys ?st test_group]
  show ?thesis unfolding wh by auto
qed

subsection \<open>Currents are stored and integrated as they come\<close>

text \<open>
  Claim C10. A STATUS reply of the PDU for a service 1..6, with an amps field that
  \<^verbatim>\<open>float\<close> accepts, is processed without an exception; the value is stored as the
  service's current whatever its sign, and when a prior sample exists (last update time
  positive) it is integrated as it is: the accumulated energy grows by
  \<open>amps * ((t - last) / 3600) * nominal_voltage\<close>. So there is an input, with amps -1.0
  and a positive interval, after which the accumulated energy is strictly smaller.
\<close>

theorem status_amps_unchecked:
  assumes wf: "wf_output st"
    and p: "py_split raw = ''PDU'' # ts # ''STATUS'' # sid # v # rest"
    and sid: "str_isdigit e sid" "py_int e sid = Some n" "1 \<le> n" "n \<le> 6"
    and amps: "py_float e v = Some a"
    and dt: "decode_time e ts f st = (t, st1)"
  shows "(\<exists>s'. parse_telemetry e raw f st = Inr s' \<and>
       output_current s' ! nat (n - 1) = a \<and>
       output_accumulated_Wh s' ! nat (n - 1) =
         (if output_last_update_time st ! nat (n - 1) > 0
          then output_accumulated_Wh st ! nat (n - 1) +
               a * ((t - output_last_update_time st ! nat (n - 1)) / 3600) *
               battery_nominal_voltage st
          else output_accumulated_Wh st ! nat (n - 1))) \<and>
     (\<exists>st0 raw0.
        wf_output st0 \<and> 0 < battery_nominal_voltage st0 \<and>
        py_split raw0 = [''PDU'', ''1970-01-01 00:01:40.000'', ''STATUS'', ''1'', ''-1.0''] \<and>
        output_last_update_time st0 ! 0 < 100 \<and>
        output_accumulated_Wh (globals_after (parse_telemetry test_env raw0 True st0)) ! 0
          < output_accumulated_Wh st0 ! 0)"
proof
  from decode_time_fields [OF dt] obtain ws where st1: "st1 = st\<lparr>warnings := warnings st @ ws\<rparr>" ..
  have wf1: "wf_output st1" using wf st1 by (simp add: wf_output_def)
  have r: "parse_telemetry e raw f st =
      parse_telemetry_status e (''PDU'' # ts # ''STATUS'' # sid # v # rest) t f st1"
    using p dt by (simp add: parse_telemetry_decoded)
  from status_sample [OF wf1 sid amps, of "''PDU''" ts "''STATUS''" rest t f]
  show "\<exists>s'. parse_telemetry e raw f st = Inr s' \<and>
       output_current s' ! nat (n - 1) = a \<and>
       output_accumulated_Wh s' ! nat (n - 1) =
         (if output_last_update_time st ! nat (n - 1) > 0
          then output_accumulated_Wh st ! nat (n - 1) +
               a * ((t - output_last_update_time st ! nat (n - 1)) / 3600) *
               battery_nominal_voltage st
          else output_accumulated_Wh st ! nat (n - 1))"
    using r st1 by auto
next
  let ?st0 = "(initial_state 28 0.9 3750)\<lparr>output_last_update_time := [10, 0, 0, 0, 0, 0, 0]\<rparr>"
  let ?raw0 = "''PDU,1970-01-01 00:01:40.000,STATUS,1,-1.0''"
  have "wf_output ?st0 \<and> 0 < battery_nominal_voltage ?st0 \<and>
        py_split ?raw0 = [''PDU'', ''1970-01-01 00:01:40.000'', ''STATUS'', ''1'', ''-1.0''] \<and>
        output_last_update_time ?st0 ! 0 < 100 \<and>
        output_accumulated_Wh (globals_after (parse_telemetry test_env ?raw0 True ?st0)) ! 0
          < output_accumulated_Wh ?st0 ! 0"
    by (simp add: eval_defs wf_output_def test_env_simps)
  then show "\<exists>st0 raw0.
        wf_output st0 \<and> 0 < battery_nominal_voltage st0 \<and>
        py_split raw0 = [''PDU'', ''1970-01-01 00:01:40.000'', ''STATUS'', ''1'', ''-1.0''] \<and>
        output_last_update_time st0 ! 0 < 100 \<and>
        output_accumulated_Wh (globals_after (parse_telemetry test_env raw0 True st0)) ! 0
          < output_accumulated_Wh st0 ! 0"
    by blast
qed

text \<open>
 A sample of -1.0 A on service 1 at 100 s, after a sample at 10 s. 
\<close>

theorem status_amps_unchecked_witness:
  "\<exists>s'. parse_telemetry test_env ''PDU,1970-01-01 00:01:40.000,STATUS,1,-1.0'' True
       ((initial_state 28 0.9 3750)\<lparr>output_last_update_time := [10, 0, 0, 0, 0, 0, 0]\<rparr>) = Inr s' \<and>
     output_current s' ! 0 = - 1 \<and>
     output_accumulated_Wh s' ! 0 = 0 + - 1 * ((100 - 10) / 3600) * 28"
proof -
  let ?st0 = "(initial_state 28 0.9 3750)\<lparr>output_last_update_time := [10, 0, 0, 0, 0, 0, 0]\<rparr>"
  have wf: "wf_output ?st0" by (simp add: wf_output_def initial_state_def)
  have p: "py_split ''PDU,1970-01-01 00:01:40.000,STATUS,1,-1.0'' =
      ''PDU'' # ''1970-01-01 00:01:40.000'' # ''STATUS'' # ''1'' # ''-1.0'' # []"
    by simp
  have sid: "str_isdigit test_env ''1''" "py_int test_env ''1'' = Some 1" "(1::int) \<le> 1" "(1::int) \<le> 6"
    by (simp_all add: test_env_simps ascii_isdigit_def is_digit_char_def ascii_int_def)
  have dt: "decode_time test_env ''1970-01-01 00:01:40.000'' True ?st0 = (100, ?st0)"
    by (simp add: decode_time_def test_env_simps)
  from status_amps_unchecked [OF wf p sid test_env_simps(11) dt]
  show ?thesis
    by (simp add: initial_state_def)
qed

end
